theory Spec2Isabelle
  imports Main
begin

named_theorems model_defs \<open>defining equations of the embedded functions\<close>
named_theorems example_defs \<open>defining equations of the concrete deployment\<close>

section \<open>Data model\<close>

text \<open>
  The enumerations of \<^verbatim>\<open>src/server/types/index.ts\<close> and the row types the
  handlers read and write through the Prisma client. Times are whole seconds since the epoch.
\<close>

datatype Role = ADMIN | STAFF | MEMBER | OWNER

datatype PostStatus = DRAFT | PUBLISHED | ARCHIVED

record User =
  u_id :: string
  u_email :: string
  u_password :: string
  u_name :: "string option"
  u_role :: Role
  u_isActive :: bool
  u_createdAt :: nat
  u_updatedAt :: nat

record Post =
  p_id :: string
  p_title :: string
  p_content :: string
  p_status :: PostStatus
  p_authorId :: string
  p_createdById :: string
  p_createdAt :: nat
  p_updatedAt :: nat

record DB =
  users :: "User list"
  posts :: "Post list"

text \<open>
  \<^verbatim>\<open>req.user\<close> as \<^verbatim>\<open>authenticateToken\<close> fills it: the columns of its
  \<^verbatim>\<open>select\<close>, which leave the password hash out.
\<close>

record ReqUser =
  ru_id :: string
  ru_email :: string
  ru_name :: "string option"
  ru_role :: Role
  ru_isActive :: bool
  ru_createdAt :: nat
  ru_updatedAt :: nat

text \<open>
  The interface \<^verbatim>\<open>JWTPayload\<close>; \<^verbatim>\<open>iat\<close> and \<^verbatim>\<open>exp\<close> are optional. The
  interface does not name it, but the payload of a token a client presents may also
  carry the registered not-before claim \<^verbatim>\<open>nbf\<close>, which verification reads: a time,
  or a value that is no number.
\<close>

datatype not_before = NoNbf | NbfAt nat | NbfNotNumber

record JWTPayload =
  jwt_userId :: string
  jwt_email :: string
  jwt_role :: Role
  jwt_iat :: "nat option"
  jwt_exp :: "nat option"
  jwt_nbf :: not_before

section \<open>The token package\<close>

text \<open>
  The handlers call \<^verbatim>\<open>jwt.sign\<close> and \<^verbatim>\<open>jwt.verify\<close> of the package
  \<^verbatim>\<open>jsonwebtoken\<close>, which is no part of this repository. A token is modelled by what it
  carries: the payload and the secret whose HS256 signature it bears. The signature is taken
  as ideal: it checks under a secret exactly when it was made with that secret.
  \<open>Malformed\<close> stands for every string verification rejects as invalid whatever the
  secret and the clock: one that is not a signed token of three parts, or whose
  \<^verbatim>\<open>exp\<close> is present and not a number. Times are whole seconds; a fractional time in
  a token acts as the next whole second, a negative one as zero.
\<close>

datatype jwt = Malformed | Signed (signing_secret: string) (claims: JWTPayload)

text \<open>
  The errors \<^verbatim>\<open>jwt.verify\<close> throws. In the package \<^verbatim>\<open>TokenExpiredError\<close> and
  \<^verbatim>\<open>NotBeforeError\<close> are both subclasses of \<^verbatim>\<open>JsonWebTokenError\<close>; the last
  constructor stands for an error of the base class that is of neither subclass.
\<close>

datatype jwt_error = TokenExpiredError | NotBeforeError | JsonWebTokenError

text \<open>
  \<^verbatim>\<open>jwt.sign(payload, secret, {expiresIn})\<close> for a payload without timestamps, the only
  kind \<^verbatim>\<open>generateTokens\<close> passes: \<^verbatim>\<open>iat\<close> is the clock, \<^verbatim>\<open>exp\<close> is
  \<^verbatim>\<open>iat\<close> plus the span in seconds, and no \<^verbatim>\<open>nbf\<close> is added.
\<close>

definition jwt_sign :: "JWTPayload \<Rightarrow> string \<Rightarrow> nat \<Rightarrow> nat \<Rightarrow> jwt" where
  jwt_sign_def [model_defs]:
  "jwt_sign payload secret expiresIn now =
     Signed secret (payload\<lparr>jwt_iat := Some now, jwt_exp := Some (now + expiresIn)\<rparr>)"

text \<open>
  \<^verbatim>\<open>jwt.verify(token, secret)\<close> with no options, as the middleware calls it: the
  package decodes the token, then checks the signature, then the not-before claim (one
  that is no number is invalid, and \<^verbatim>\<open>payload.nbf > clockTimestamp\<close> is not yet
  active), and only then the expiry (\<^verbatim>\<open>clockTimestamp >= payload.exp\<close> is expired).
  \<open>Inl\<close> is the error thrown.
\<close>

definition check_exp :: "JWTPayload \<Rightarrow> nat \<Rightarrow> jwt_error + JWTPayload" where
  check_exp_def [model_defs]:
  "check_exp payload now =
     (case jwt_exp payload of
        None \<Rightarrow> Inr payload
      | Some e \<Rightarrow> if e \<le> now then Inl TokenExpiredError else Inr payload)"

definition nbf_reached :: "not_before \<Rightarrow> nat \<Rightarrow> bool" where
  nbf_reached_def [model_defs]:
  "nbf_reached c now =
     (case c of NoNbf \<Rightarrow> True | NbfAt n \<Rightarrow> n \<le> now | NbfNotNumber \<Rightarrow> False)"

definition jwt_verify :: "jwt \<Rightarrow> string \<Rightarrow> nat \<Rightarrow> jwt_error + JWTPayload" where
  jwt_verify_def [model_defs]:
  "jwt_verify token secret now =
     (case token of
        Malformed \<Rightarrow> Inl JsonWebTokenError
      | Signed k payload \<Rightarrow>
          if k \<noteq> secret then Inl JsonWebTokenError
          else (case jwt_nbf payload of
                  NbfNotNumber \<Rightarrow> Inl JsonWebTokenError
                | NbfAt n \<Rightarrow> if now < n then Inl NotBeforeError else check_exp payload now
                | NoNbf \<Rightarrow> check_exp payload now))"

section \<open>What the process is given\<close>

text \<open>
  The environment variables the server reads, and the behaviour of the packages it calls
  that the handlers depend on. None of these packages is in the repository, so the
  handlers take them as parameters: \<open>jwt_decode\<close> tells which token a compact string
  received from a client is; \<open>isEmail\<close> and \<open>normalizeEmail\<close> are the validator and
  sanitizer of \<^verbatim>\<open>express-validator\<close>; \<open>bcrypt_hash\<close> and \<open>bcrypt_compare\<close> are
  \<^verbatim>\<open>bcryptjs\<close>; \<open>contains_insensitive\<close> is the datastore's case-insensitive
  \<^verbatim>\<open>contains\<close> filter (needle first); \<open>new_id\<close> is the datastore's default for a
  new row's id.
\<close>

record Platform =
  JWT_ACCESS_SECRET :: "string option"
  JWT_REFRESH_SECRET :: "string option"
  jwt_decode :: "string \<Rightarrow> jwt"
  isEmail :: "string \<Rightarrow> bool"
  normalizeEmail :: "string \<Rightarrow> string"
  bcrypt_hash :: "string \<Rightarrow> string"
  bcrypt_compare :: "string \<Rightarrow> string \<Rightarrow> bool"
  contains_insensitive :: "string \<Rightarrow> string \<Rightarrow> bool"
  new_id :: "User list \<Rightarrow> string"

text \<open>\<^verbatim>\<open>process.env.X || 'fallback'\<close>: an unset or empty variable gives the fallback.\<close>

definition env_or :: "string option \<Rightarrow> string \<Rightarrow> string" where
  env_or_def [model_defs]:
  "env_or v fallback = (case v of None \<Rightarrow> fallback | Some s \<Rightarrow> if s = [] then fallback else s)"

definition ACCESS_SECRET :: "Platform \<Rightarrow> string" where
  ACCESS_SECRET_def [model_defs]:
  "ACCESS_SECRET pf = env_or (JWT_ACCESS_SECRET pf) ''fallback-access-secret''"

definition REFRESH_SECRET :: "Platform \<Rightarrow> string" where
  REFRESH_SECRET_def [model_defs]:
  "REFRESH_SECRET pf = env_or (JWT_REFRESH_SECRET pf) ''fallback-refresh-secret''"

text \<open>\<^verbatim>\<open>'15m'\<close> and \<^verbatim>\<open>'7d'\<close>, in seconds.\<close>

definition ACCESS_TOKEN_EXPIRY :: nat where
  ACCESS_TOKEN_EXPIRY_def [model_defs]:
  "ACCESS_TOKEN_EXPIRY = 15 * 60"

definition REFRESH_TOKEN_EXPIRY :: nat where
  REFRESH_TOKEN_EXPIRY_def [model_defs]:
  "REFRESH_TOKEN_EXPIRY = 7 * 24 * 60 * 60"

section \<open>Responses\<close>

text \<open>
  A response is its HTTP status with either the error code of the error envelope or the
  data of the success envelope. The human-readable messages are left out.
\<close>

record Tokens =
  accessToken :: jwt
  refreshToken :: jwt

record UserView =
  uv_id :: string
  uv_email :: string
  uv_name :: "string option"
  uv_role :: Role

record Pagination =
  pg_page :: int
  pg_limit :: int
  pg_total :: int
  pg_pages :: int

datatype Data =
    AuthResponse UserView jwt jwt
  | AccessTokenOnly jwt
  | PostList "Post list" Pagination
  | UserData ReqUser
  | Message string

datatype Response = Failure nat string | Success nat Data

section \<open>Middleware (\<^verbatim>\<open>src/server/middleware/auth.ts\<close>)\<close>

text \<open>\<^verbatim>\<open>s.split(c)\<close> of JavaScript for a one-character separator; never empty.\<close>

fun split_js :: "char \<Rightarrow> string \<Rightarrow> string list" where
  "split_js c [] = [[]]"
| "split_js c (x # xs) =
     (if x = c then [] # split_js c xs
      else (case split_js c xs of
              [] \<Rightarrow> [[x]]
            | w # ws \<Rightarrow> (x # w) # ws))"

text \<open>\<^verbatim>\<open>xs[i]\<close>, with \<open>None\<close> for \<^verbatim>\<open>undefined\<close>.\<close>

definition at_index :: "'a list \<Rightarrow> nat \<Rightarrow> 'a option" where
  at_index_def [model_defs]:
  "at_index xs i = (if i < length xs then Some (xs ! i) else None)"

definition generateTokens :: "Platform \<Rightarrow> nat \<Rightarrow> string \<Rightarrow> string \<Rightarrow> Role \<Rightarrow> Tokens" where
  generateTokens_def [model_defs]:
  "generateTokens pf now uid mail r =
     (let payload = \<lparr>jwt_userId = uid, jwt_email = mail, jwt_role = r,
                     jwt_iat = None, jwt_exp = None, jwt_nbf = NoNbf\<rparr>
      in \<lparr>accessToken = jwt_sign payload (ACCESS_SECRET pf) ACCESS_TOKEN_EXPIRY now,
          refreshToken = jwt_sign payload (REFRESH_SECRET pf) REFRESH_TOKEN_EXPIRY now\<rparr>)"

definition findUnique_id :: "User list \<Rightarrow> string \<Rightarrow> User option" where
  findUnique_id_def [model_defs]:
  "findUnique_id us i = find (\<lambda>u. u_id u = i) us"

definition findUnique_email :: "User list \<Rightarrow> string \<Rightarrow> User option" where
  findUnique_email_def [model_defs]:
  "findUnique_email us e = find (\<lambda>u. u_email u = e) us"

definition select_ReqUser :: "User \<Rightarrow> ReqUser" where
  select_ReqUser_def [model_defs]:
  "select_ReqUser u =
     \<lparr>ru_id = u_id u, ru_email = u_email u, ru_name = u_name u, ru_role = u_role u,
      ru_isActive = u_isActive u, ru_createdAt = u_createdAt u, ru_updatedAt = u_updatedAt u\<rparr>"

text \<open>\<^verbatim>\<open>authHeader && authHeader.split(' ')[1]\<close>.\<close>

definition bearer_token :: "string option \<Rightarrow> string option" where
  bearer_token_def [model_defs]:
  "bearer_token authHeader =
     (case authHeader of
        None \<Rightarrow> None
      | Some h \<Rightarrow> if h = [] then Some [] else at_index (split_js CHR '' '' h) 1)"

text \<open>
  \<^verbatim>\<open>authenticateToken\<close>: \<open>Inl\<close> is the response that ends the request, \<open>Inr\<close> is
  the user attached to the request when \<^verbatim>\<open>next()\<close> is called. \<^verbatim>\<open>!token\<close> holds
  for an undefined and for an empty token. The \<^verbatim>\<open>catch\<close> tests
  \<^verbatim>\<open>instanceof TokenExpiredError\<close> first and \<^verbatim>\<open>instanceof JsonWebTokenError\<close>
  second, so a token that is not yet active is answered as an invalid one. The datastore is a
  value here and its reads do not fail, so the last branch of the \<^verbatim>\<open>catch\<close>
  (status 500) has no counterpart.
\<close>

definition authenticateToken ::
  "Platform \<Rightarrow> nat \<Rightarrow> DB \<Rightarrow> string option \<Rightarrow> Response + ReqUser" where
  authenticateToken_def [model_defs]:
  "authenticateToken pf now db authHeader =
     (case bearer_token authHeader of
        None \<Rightarrow> Inl (Failure 401 ''MISSING_TOKEN'')
      | Some token \<Rightarrow>
          if token = [] then Inl (Failure 401 ''MISSING_TOKEN'')
          else (case jwt_verify (jwt_decode pf token) (ACCESS_SECRET pf) now of
                  Inl TokenExpiredError \<Rightarrow> Inl (Failure 401 ''TOKEN_EXPIRED'')
                | Inl NotBeforeError \<Rightarrow> Inl (Failure 401 ''INVALID_TOKEN'')
                | Inl JsonWebTokenError \<Rightarrow> Inl (Failure 401 ''INVALID_TOKEN'')
                | Inr decoded \<Rightarrow>
                    (case findUnique_id (users db) (jwt_userId decoded) of
                       None \<Rightarrow> Inl (Failure 401 ''USER_NOT_FOUND'')
                     | Some user \<Rightarrow>
                         if \<not> u_isActive user then Inl (Failure 401 ''USER_INACTIVE'')
                         else Inr (select_ReqUser user))))"

text \<open>\<^verbatim>\<open>requireRole(roles)\<close>: \<open>None\<close> is \<^verbatim>\<open>next()\<close>.\<close>

definition requireRole :: "Role list \<Rightarrow> ReqUser option \<Rightarrow> Response option" where
  requireRole_def [model_defs]:
  "requireRole roles user =
     (case user of
        None \<Rightarrow> Some (Failure 401 ''UNAUTHORIZED'')
      | Some u \<Rightarrow>
          if ru_role u \<notin> set roles then Some (Failure 403 ''INSUFFICIENT_PERMISSIONS'')
          else None)"

definition requireAdmin :: "ReqUser option \<Rightarrow> Response option" where
  requireAdmin_def [model_defs]:
  "requireAdmin = requireRole [ADMIN]"

definition requireStaff :: "ReqUser option \<Rightarrow> Response option" where
  requireStaff_def [model_defs]:
  "requireStaff = requireRole [ADMIN, STAFF]"

definition requireAuth :: "ReqUser option \<Rightarrow> Response option" where
  requireAuth_def [model_defs]:
  "requireAuth = requireRole [ADMIN, STAFF, MEMBER, OWNER]"

text \<open>
  \<^verbatim>\<open>refreshAccessToken\<close>: every failure inside the \<^verbatim>\<open>try\<close> is rethrown as the one
  error \<^verbatim>\<open>Invalid refresh token\<close>, here \<open>None\<close>.
\<close>

definition refreshAccessToken :: "Platform \<Rightarrow> nat \<Rightarrow> DB \<Rightarrow> string \<Rightarrow> Tokens option" where
  refreshAccessToken_def [model_defs]:
  "refreshAccessToken pf now db refreshTok =
     (case jwt_verify (jwt_decode pf refreshTok) (REFRESH_SECRET pf) now of
        Inl _ \<Rightarrow> None
      | Inr decoded \<Rightarrow>
          (case findUnique_id (users db) (jwt_userId decoded) of
             None \<Rightarrow> None
           | Some user \<Rightarrow>
               if \<not> u_isActive user then None
               else Some (generateTokens pf now (u_id user) (u_email user) (u_role user))))"

section \<open>Validators and query parsing\<close>

text \<open>
  \<^verbatim>\<open>isLength({min})\<close> of \<^verbatim>\<open>express-validator\<close>, a length being the number of
  characters of the string, and the roles as the wire spells them: \<open>role_of_string\<close>
  is defined on exactly the four strings the routes' \<^verbatim>\<open>isIn\<close> check admits.
\<close>

definition isLength_min :: "nat \<Rightarrow> string \<Rightarrow> bool" where
  isLength_min_def [model_defs]:
  "isLength_min n s = (n \<le> length s)"

definition role_of_string :: "string \<Rightarrow> Role option" where
  role_of_string_def [model_defs]:
  "role_of_string s =
     (if s = ''ADMIN'' then Some ADMIN
      else if s = ''STAFF'' then Some STAFF
      else if s = ''MEMBER'' then Some MEMBER
      else if s = ''OWNER'' then Some OWNER
      else None)"

text \<open>
  A JavaScript number is a double. An integer below \<open>2 ^ 53\<close> in magnitude is one
  exactly; a larger one is rounded to the nearest double, to the even neighbour on a tie.
  \<open>ulp a\<close> is the distance between the doubles around \<open>a\<close>. The largest double, near
  \<open>1.8 * 10 ^ 308\<close>, is the limit of what is modelled: a number beyond it is
  \<^verbatim>\<open>Infinity\<close> in JavaScript.
\<close>

function ulp :: "nat \<Rightarrow> nat" where
  "ulp a = (if a < 2 ^ 53 then 1 else 2 * ulp (a div 2))"
  by pat_completeness auto
termination
  by (relation "measure id") auto

declare ulp.simps [simp del]

definition round_even :: "nat \<Rightarrow> nat" where
  "round_even a =
     (let u = ulp a; q = a div u; r = a mod u in
      if u < 2 * r \<or> (2 * r = u \<and> odd q) then (q + 1) * u else q * u)"

definition to_double :: "int \<Rightarrow> int" where
  "to_double n =
     (if \<bar>n\<bar> < 2 ^ 53 then n
      else if n < 0 then - int (round_even (nat (- n)))
      else int (round_even (nat n)))"

text \<open>
  \<^verbatim>\<open>isInt({min, max})\<close>: an optional sign and one or more decimal digits, with the value
  within the bounds. \<^verbatim>\<open>parseInt\<close> reads an optional sign and the longest run of
  digits after it, and returns their value as a number; \<open>None\<close> is \<^verbatim>\<open>NaN\<close>.
  Leading blanks and the hexadecimal prefix, which \<^verbatim>\<open>parseInt\<close> also reads, are left
  out: the handlers parse only strings that passed \<open>isInt\<close>. The validator compares
  the string with its bounds as a number too.
\<close>

definition isDigit :: "char \<Rightarrow> bool" where
  isDigit_def [model_defs]:
  "isDigit c = (c \<in> set ''0123456789'')"

definition digit_value :: "char \<Rightarrow> int" where
  digit_value_def [model_defs]:
  "digit_value c = int (of_char c) - 48"

definition digits_value :: "string \<Rightarrow> int" where
  digits_value_def [model_defs]:
  "digits_value ds = foldl (\<lambda>a c. 10 * a + digit_value c) 0 ds"

definition unsigned_part :: "string \<Rightarrow> string" where
  unsigned_part_def [model_defs]:
  "unsigned_part s =
     (case s of
        [] \<Rightarrow> []
      | c # r \<Rightarrow> if c = CHR ''-'' \<or> c = CHR ''+'' then r else s)"

definition is_negative :: "string \<Rightarrow> bool" where
  is_negative_def [model_defs]:
  "is_negative s = (case s of [] \<Rightarrow> False | c # r \<Rightarrow> c = CHR ''-'')"

definition parseInt :: "string option \<Rightarrow> int option" where
  parseInt_def [model_defs]:
  "parseInt v =
     (case v of
        None \<Rightarrow> None
      | Some s \<Rightarrow>
          (let ds = takeWhile isDigit (unsigned_part s) in
           if ds = [] then None
           else Some (to_double (if is_negative s then - digits_value ds else digits_value ds))))"

definition isInt :: "int \<Rightarrow> int option \<Rightarrow> string \<Rightarrow> bool" where
  isInt_def [model_defs]:
  "isInt lo hi s =
     (let ds = unsigned_part s in
      ds \<noteq> [] \<and> list_all isDigit ds \<and>
      (case parseInt (Some s) of
         None \<Rightarrow> False
       | Some n \<Rightarrow> lo \<le> n \<and> (case hi of None \<Rightarrow> True | Some h \<Rightarrow> n \<le> h)))"

text \<open>\<^verbatim>\<open>.optional()\<close>: an absent field passes.\<close>

definition optional :: "('a \<Rightarrow> bool) \<Rightarrow> 'a option \<Rightarrow> bool" where
  optional_def [model_defs]:
  "optional check v = (case v of None \<Rightarrow> True | Some x \<Rightarrow> check x)"

text \<open>\<^verbatim>\<open>n || d\<close> on numbers: \<^verbatim>\<open>NaN\<close> and \<^verbatim>\<open>0\<close> give the default.\<close>

definition num_or :: "int option \<Rightarrow> int \<Rightarrow> int" where
  num_or_def [model_defs]:
  "num_or v d = (case v of None \<Rightarrow> d | Some n \<Rightarrow> if n = 0 then d else n)"

text \<open>\<^verbatim>\<open>s || d\<close> on strings: undefined and the empty string give the default.\<close>

definition str_or :: "string option \<Rightarrow> string \<Rightarrow> string" where
  str_or_def [model_defs]:
  "str_or v d = (case v of None \<Rightarrow> d | Some s \<Rightarrow> if s = [] then d else s)"

section \<open>Authentication routes (\<^verbatim>\<open>src/server/routes/auth.ts\<close>)\<close>

text \<open>
  Every route returns its response and the datastore it leaves behind. The datastore's
  operations are total here, so the \<^verbatim>\<open>catch\<close> branches answering 500 have no
  counterpart. A request body has the fields of its interface in
  \<^verbatim>\<open>types/index.ts\<close>; the role is the string the validator sees, and
  \<^verbatim>\<open>rememberMe\<close>, which the login route reads and never uses, is left out. The
  body's email is what was submitted: the routes read it back from the request after the
  chain \<^verbatim>\<open>isEmail().normalizeEmail()\<close> has replaced it by its normalized form.
\<close>

record LoginRequest =
  lr_email :: string
  lr_password :: string

record RegisterRequest =
  rr_email :: string
  rr_password :: string
  rr_name :: "string option"
  rr_role :: string

definition view_of :: "User \<Rightarrow> UserView" where
  view_of_def [model_defs]:
  "view_of u = \<lparr>uv_id = u_id u, uv_email = u_email u, uv_name = u_name u, uv_role = u_role u\<rparr>"

definition login :: "Platform \<Rightarrow> nat \<Rightarrow> DB \<Rightarrow> LoginRequest \<Rightarrow> Response \<times> DB" where
  login_def [model_defs]:
  "login pf now db body =
     (if \<not> (isEmail pf (lr_email body) \<and> isLength_min 6 (lr_password body))
      then (Failure 400 ''VALIDATION_ERROR'', db)
      else
        (let email = normalizeEmail pf (lr_email body); password = lr_password body in
         case findUnique_email (users db) email of
           None \<Rightarrow> (Failure 401 ''INVALID_CREDENTIALS'', db)
         | Some user \<Rightarrow>
             if \<not> u_isActive user then (Failure 401 ''ACCOUNT_INACTIVE'', db)
             else if \<not> bcrypt_compare pf password (u_password user)
             then (Failure 401 ''INVALID_CREDENTIALS'', db)
             else
               (let t = generateTokens pf now (u_id user) (u_email user) (u_role user) in
                (Success 200 (AuthResponse (view_of user) (accessToken t) (refreshToken t)), db))))"

text \<open>
  \<^verbatim>\<open>prisma.user.create\<close> with the four fields both creating routes pass. The schema is
  not in the repository: the id is the platform's, the timestamps are the clock, and the
  active flag defaults to true (the seeded sample users are created without it and can
  log in).
\<close>

definition create_user ::
  "Platform \<Rightarrow> nat \<Rightarrow> DB \<Rightarrow> string \<Rightarrow> string \<Rightarrow> string \<Rightarrow> Role \<Rightarrow> User" where
  create_user_def [model_defs]:
  "create_user pf now db email hashedPassword name role =
     \<lparr>u_id = new_id pf (users db), u_email = email, u_password = hashedPassword,
      u_name = Some name, u_role = role, u_isActive = True,
      u_createdAt = now, u_updatedAt = now\<rparr>"

text \<open>\<^verbatim>\<open>name || email.split('@')[0]\<close>; the split is never empty.\<close>

definition name_or_local :: "string option \<Rightarrow> string \<Rightarrow> string" where
  name_or_local_def [model_defs]:
  "name_or_local name email = str_or name (hd (split_js CHR ''@'' email))"

text \<open>The part of an address before its first \<^verbatim>\<open>@\<close>, stated without the split.\<close>

definition local_part :: "string \<Rightarrow> string" where
  local_part_def [model_defs]:
  "local_part email = takeWhile (\<lambda>c. c \<noteq> CHR ''@'') email"

text \<open>
  The four checks shared by \<^verbatim>\<open>POST /register\<close> and \<^verbatim>\<open>POST /api/users\<close>. A body
  that passes them has a role \<open>role_of_string\<close> knows, so in the two routes below the
  branch for an unknown role is never taken.
\<close>

definition valid_new_user :: "Platform \<Rightarrow> RegisterRequest \<Rightarrow> bool" where
  valid_new_user_def [model_defs]:
  "valid_new_user pf body =
     (isEmail pf (rr_email body) \<and> isLength_min 8 (rr_password body) \<and>
      optional (isLength_min 2) (rr_name body) \<and>
      rr_role body \<in> set [''ADMIN'', ''STAFF'', ''MEMBER'', ''OWNER''])"

definition register :: "Platform \<Rightarrow> nat \<Rightarrow> DB \<Rightarrow> RegisterRequest \<Rightarrow> Response \<times> DB" where
  register_def [model_defs]:
  "register pf now db body =
     (if \<not> valid_new_user pf body then (Failure 400 ''VALIDATION_ERROR'', db)
      else
        (let email = normalizeEmail pf (rr_email body) in
         case findUnique_email (users db) email of
           Some existingUser \<Rightarrow> (Failure 409 ''USER_EXISTS'', db)
         | None \<Rightarrow>
             (case role_of_string (rr_role body) of
                None \<Rightarrow> (Failure 400 ''VALIDATION_ERROR'', db)
              | Some role \<Rightarrow>
                  (let hashedPassword = bcrypt_hash pf (rr_password body);
                       user = create_user pf now db email hashedPassword
                                (name_or_local (rr_name body) email) role;
                       t = generateTokens pf now (u_id user) (u_email user) (u_role user)
                   in (Success 201 (AuthResponse (view_of user) (accessToken t) (refreshToken t)),
                       db\<lparr>users := users db @ [user]\<rparr>)))))"

text \<open>\<^verbatim>\<open>POST /refresh\<close>; the body's \<^verbatim>\<open>refreshToken\<close> may be absent.\<close>

definition refresh :: "Platform \<Rightarrow> nat \<Rightarrow> DB \<Rightarrow> string option \<Rightarrow> Response \<times> DB" where
  refresh_def [model_defs]:
  "refresh pf now db body_refreshToken =
     (case body_refreshToken of
        None \<Rightarrow> (Failure 400 ''MISSING_REFRESH_TOKEN'', db)
      | Some tok \<Rightarrow>
          if tok = [] then (Failure 400 ''MISSING_REFRESH_TOKEN'', db)
          else (case refreshAccessToken pf now db tok of
                  None \<Rightarrow> (Failure 401 ''INVALID_REFRESH_TOKEN'', db)
                | Some t \<Rightarrow> (Success 200 (AccessTokenOnly (accessToken t)), db)))"

section \<open>Post routes (\<^verbatim>\<open>src/server/routes/posts.ts\<close>)\<close>

record PostsQuery =
  q_page :: "string option"
  q_limit :: "string option"
  q_status :: "string option"
  q_search :: "string option"

text \<open>
  The \<^verbatim>\<open>where\<close> object handed to the datastore: an optional status, in the wire's
  spelling, and an optional search term for title or content.
\<close>

record Where =
  w_status :: "string option"
  w_OR :: "string option"

definition status_string :: "PostStatus \<Rightarrow> string" where
  status_string_def [model_defs]:
  "status_string st =
     (case st of DRAFT \<Rightarrow> ''DRAFT'' | PUBLISHED \<Rightarrow> ''PUBLISHED'' | ARCHIVED \<Rightarrow> ''ARCHIVED'')"

text \<open>
  Lines 42 to 61 of the route: the three assignments in the order of the source, each
  \<^verbatim>\<open>if (x)\<close> being true for a defined, non-empty string.
\<close>

definition build_where :: "Role \<Rightarrow> string option \<Rightarrow> string option \<Rightarrow> Where" where
  build_where_def [model_defs]:
  "build_where role status search =
     (let w0 = \<lparr>w_status = None, w_OR = None\<rparr>;
          w1 = (if role = MEMBER then w0\<lparr>w_status := Some ''PUBLISHED''\<rparr> else w0);
          w2 = (case status of
                  None \<Rightarrow> w1
                | Some st \<Rightarrow> if st = [] then w1 else w1\<lparr>w_status := Some st\<rparr>);
          w3 = (case search of
                  None \<Rightarrow> w2
                | Some q \<Rightarrow> if q = [] then w2 else w2\<lparr>w_OR := Some q\<rparr>)
      in w3)"

definition post_matches :: "Platform \<Rightarrow> Where \<Rightarrow> Post \<Rightarrow> bool" where
  post_matches_def [model_defs]:
  "post_matches pf w p =
     ((case w_status w of None \<Rightarrow> True | Some st \<Rightarrow> status_string (p_status p) = st) \<and>
      (case w_OR w of
         None \<Rightarrow> True
       | Some q \<Rightarrow> contains_insensitive pf q (p_title p) \<or> contains_insensitive pf q (p_content p)))"

text \<open>
  \<^verbatim>\<open>prisma.post.findMany({where, skip, take, orderBy: {createdAt: 'desc'}})\<close> and
  \<^verbatim>\<open>prisma.post.count({where})\<close>. The joined author columns of the
  \<^verbatim>\<open>select\<close> are left out.
\<close>

definition findMany_posts :: "Platform \<Rightarrow> Where \<Rightarrow> int \<Rightarrow> int \<Rightarrow> Post list \<Rightarrow> Post list" where
  findMany_posts_def [model_defs]:
  "findMany_posts pf w skip limit ps =
     take (nat limit) (drop (nat skip) (rev (sort_key p_createdAt (filter (post_matches pf w) ps))))"

definition count_posts :: "Platform \<Rightarrow> Where \<Rightarrow> Post list \<Rightarrow> int" where
  count_posts_def [model_defs]:
  "count_posts pf w ps = int (length (filter (post_matches pf w) ps))"

text \<open>
  \<^verbatim>\<open>Math.ceil(total / limit)\<close> for a positive limit, which validation ensures. The
  quotient of the code is a double; its ceiling is the exact one for every count below
  \<open>2 ^ 45\<close>.
\<close>

definition ceil_div :: "int \<Rightarrow> int \<Rightarrow> int" where
  ceil_div_def [model_defs]:
  "ceil_div n d = - ((- n) div d)"

definition valid_posts_query :: "PostsQuery \<Rightarrow> bool" where
  valid_posts_query_def [model_defs]:
  "valid_posts_query q =
     (optional (isInt 1 None) (q_page q) \<and>
      optional (isInt 1 (Some 100)) (q_limit q) \<and>
      optional (\<lambda>st. st \<in> set [''DRAFT'', ''PUBLISHED'', ''ARCHIVED'']) (q_status q) \<and>
      optional (isLength_min 1) (q_search q))"

text \<open>
  \<^verbatim>\<open>GET /api/posts\<close>, behind \<^verbatim>\<open>router.use(authenticateToken)\<close>. The
  difference and the product of \<^verbatim>\<open>(page - 1) * limit\<close> are each rounded to a double:
  validation bounds the limit by 100 but the page only from below. What the datastore
  does with a skip beyond its own integer range is not in the repository; here such a skip
  leaves no row.
\<close>

definition get_posts ::
  "Platform \<Rightarrow> nat \<Rightarrow> DB \<Rightarrow> string option \<Rightarrow> PostsQuery \<Rightarrow> Response \<times> DB" where
  get_posts_def [model_defs]:
  "get_posts pf now db authHeader q =
     (case authenticateToken pf now db authHeader of
        Inl r \<Rightarrow> (r, db)
      | Inr user \<Rightarrow>
          if \<not> valid_posts_query q then (Failure 400 ''VALIDATION_ERROR'', db)
          else
            (let page = num_or (parseInt (q_page q)) 1;
                 limit = num_or (parseInt (q_limit q)) 10;
                 skip = to_double (to_double (page - 1) * limit);
                 wh = build_where (ru_role user) (q_status q) (q_search q);
                 found = findMany_posts pf wh skip limit (posts db);
                 total_count = count_posts pf wh (posts db)
             in (Success 200
                   (PostList found
                      \<lparr>pg_page = page, pg_limit = limit, pg_total = total_count,
                       pg_pages = ceil_div total_count limit\<rparr>), db)))"

section \<open>User routes (second module of \<^verbatim>\<open>src/server/routes/posts.ts\<close>)\<close>

text \<open>
  \<^verbatim>\<open>POST /api/users\<close>: \<^verbatim>\<open>authenticateToken\<close>, then \<^verbatim>\<open>requireAdmin\<close>, then
  the handler.
\<close>

definition create_user_route ::
  "Platform \<Rightarrow> nat \<Rightarrow> DB \<Rightarrow> string option \<Rightarrow> RegisterRequest \<Rightarrow> Response \<times> DB" where
  create_user_route_def [model_defs]:
  "create_user_route pf now db authHeader body =
     (case authenticateToken pf now db authHeader of
        Inl r \<Rightarrow> (r, db)
      | Inr requester \<Rightarrow>
          (case requireAdmin (Some requester) of
             Some r \<Rightarrow> (r, db)
           | None \<Rightarrow>
               if \<not> valid_new_user pf body then (Failure 400 ''VALIDATION_ERROR'', db)
               else
                 (let email = normalizeEmail pf (rr_email body) in
                  case findUnique_email (users db) email of
                    Some existingUser \<Rightarrow> (Failure 409 ''USER_EXISTS'', db)
                  | None \<Rightarrow>
                      (case role_of_string (rr_role body) of
                         None \<Rightarrow> (Failure 400 ''VALIDATION_ERROR'', db)
                       | Some role \<Rightarrow>
                           (let hashedPassword = bcrypt_hash pf (rr_password body);
                                user = create_user pf now db email hashedPassword
                                         (name_or_local (rr_name body) email) role
                            in (Success 201 (UserData (select_ReqUser user)),
                                db\<lparr>users := users db @ [user]\<rparr>))))))"

text \<open>
  \<^verbatim>\<open>DELETE /api/users/:id\<close>, with the same two guards.
  \<^verbatim>\<open>prisma.user.delete\<close> removes the row of that id.
\<close>

definition delete_user_handler :: "DB \<Rightarrow> ReqUser option \<Rightarrow> string \<Rightarrow> Response \<times> DB" where
  delete_user_handler_def [model_defs]:
  "delete_user_handler db req_user ident =
     (case findUnique_id (users db) ident of
        None \<Rightarrow> (Failure 404 ''USER_NOT_FOUND'', db)
      | Some existingUser \<Rightarrow>
          if Some ident = map_option ru_id req_user then (Failure 400 ''CANNOT_DELETE_SELF'', db)
          else (Success 200 (Message ''User deleted successfully''),
                db\<lparr>users := filter (\<lambda>u. u_id u \<noteq> ident) (users db)\<rparr>))"

definition delete_user_route ::
  "Platform \<Rightarrow> nat \<Rightarrow> DB \<Rightarrow> string option \<Rightarrow> string \<Rightarrow> Response \<times> DB" where
  delete_user_route_def [model_defs]:
  "delete_user_route pf now db authHeader ident =
     (case authenticateToken pf now db authHeader of
        Inl r \<Rightarrow> (r, db)
      | Inr requester \<Rightarrow>
          (case requireAdmin (Some requester) of
             Some r \<Rightarrow> (r, db)
           | None \<Rightarrow> delete_user_handler db (Some requester) ident))"

section \<open>A concrete deployment\<close>

text \<open>
  One platform and one datastore on which the handlers are run below. No secret is set in
  the environment, so the fallbacks apply. The sanitizer lowercases the address, as
  \<^verbatim>\<open>normalizeEmail\<close> does by default for an address of an ordinary domain; the hash
  is a tagged copy of the password.
\<close>

definition lower_char :: "char \<Rightarrow> char" where
  lower_char_def [example_defs]:
  "lower_char c =
     (case map_of (zip ''ABCDEFGHIJKLMNOPQRSTUVWXYZ'' ''abcdefghijklmnopqrstuvwxyz'') c of
        None \<Rightarrow> c
      | Some l \<Rightarrow> l)"

fun starts_with :: "string \<Rightarrow> string \<Rightarrow> bool" where
  "starts_with [] s = True"
| "starts_with (q # qs) [] = False"
| "starts_with (q # qs) (c # cs) = (q = c \<and> starts_with qs cs)"

fun contains_string :: "string \<Rightarrow> string \<Rightarrow> bool" where
  "contains_string q [] = (q = [])"
| "contains_string q (c # cs) = (starts_with q (c # cs) \<or> contains_string q cs)"

definition example_hash :: "string \<Rightarrow> string" where
  example_hash_def [example_defs]:
  "example_hash pw = ''hashed:'' @ pw"

definition alice :: User where
  alice_def [example_defs]:
  "alice = \<lparr>u_id = ''u1'', u_email = ''alice@example.com'', u_password = example_hash ''alice-pass-1'',
            u_name = Some ''Alice'', u_role = ADMIN, u_isActive = True,
            u_createdAt = 100, u_updatedAt = 100\<rparr>"

definition bob :: User where
  bob_def [example_defs]:
  "bob = \<lparr>u_id = ''u2'', u_email = ''bob@example.com'', u_password = example_hash ''bob-pass-22'',
          u_name = Some ''Bob'', u_role = MEMBER, u_isActive = True,
          u_createdAt = 200, u_updatedAt = 900\<rparr>"

definition carol :: User where
  carol_def [example_defs]:
  "carol = \<lparr>u_id = ''u3'', u_email = ''carol@example.com'', u_password = example_hash ''carol'',
            u_name = Some ''Carol'', u_role = STAFF, u_isActive = False,
            u_createdAt = 300, u_updatedAt = 950\<rparr>"

definition draft_post :: Post where
  draft_post_def [example_defs]:
  "draft_post = \<lparr>p_id = ''p1'', p_title = ''New Features Coming Soon'', p_content = ''Soon.'',
                 p_status = DRAFT, p_authorId = ''u1'', p_createdById = ''u1'',
                 p_createdAt = 400, p_updatedAt = 400\<rparr>"

definition published_post :: Post where
  published_post_def [example_defs]:
  "published_post = \<lparr>p_id = ''p2'', p_title = ''Welcome'', p_content = ''Hello.'',
                     p_status = PUBLISHED, p_authorId = ''u1'', p_createdById = ''u1'',
                     p_createdAt = 500, p_updatedAt = 500\<rparr>"

definition example_db :: DB where
  example_db_def [example_defs]:
  "example_db = \<lparr>users = [alice, bob, carol], posts = [draft_post, published_post]\<rparr>"

definition claims_of :: "User \<Rightarrow> nat \<Rightarrow> nat \<Rightarrow> JWTPayload" where
  claims_of_def [example_defs]:
  "claims_of u issued expires =
     \<lparr>jwt_userId = u_id u, jwt_email = u_email u, jwt_role = u_role u,
      jwt_iat = Some issued, jwt_exp = Some expires, jwt_nbf = NoNbf\<rparr>"

text \<open>
  The token strings clients present: access tokens issued at time 1000 for the three users
  and for a user who has since been deleted, an access token forged with a guessed secret,
  an access token of Bob that expires at 1900 and is not to be used before 5000, one
  whose not-before claim is no number,
  a refresh token issued to Bob when he still was an administrator under another address,
  and a refresh token of Carol.
\<close>

definition example_tokens :: "(string \<times> jwt) list" where
  example_tokens_def [example_defs]:
  "example_tokens =
     [(''access.alice'', Signed ''fallback-access-secret'' (claims_of alice 1000 1900)),
      (''access.bob'', Signed ''fallback-access-secret'' (claims_of bob 1000 1900)),
      (''access.carol'', Signed ''fallback-access-secret'' (claims_of carol 1000 1900)),
      (''access.ghost'', Signed ''fallback-access-secret''
         \<lparr>jwt_userId = ''u9'', jwt_email = ''ghost@example.com'', jwt_role = STAFF,
          jwt_iat = Some 1000, jwt_exp = Some 1900, jwt_nbf = NoNbf\<rparr>),
      (''forged.bob'', Signed ''guessed-secret'' (claims_of bob 1000 1900)),
      (''postdated.bob'', Signed ''fallback-access-secret''
         ((claims_of bob 1000 1900)\<lparr>jwt_nbf := NbfAt 5000\<rparr>)),
      (''garbled.bob'', Signed ''fallback-access-secret''
         ((claims_of bob 1000 1900)\<lparr>jwt_nbf := NbfNotNumber\<rparr>)),
      (''refresh.bob'', Signed ''fallback-refresh-secret''
         \<lparr>jwt_userId = ''u2'', jwt_email = ''bob@old.example.com'', jwt_role = ADMIN,
          jwt_iat = Some 1000, jwt_exp = Some 605800, jwt_nbf = NoNbf\<rparr>),
      (''refresh.carol'', Signed ''fallback-refresh-secret'' (claims_of carol 1000 605800))]"

definition example_decode :: "string \<Rightarrow> jwt" where
  example_decode_def [example_defs]:
  "example_decode s = (case map_of example_tokens s of None \<Rightarrow> Malformed | Some t \<Rightarrow> t)"

definition example_platform :: Platform where
  example_platform_def [example_defs]:
  "example_platform =
     \<lparr>JWT_ACCESS_SECRET = None, JWT_REFRESH_SECRET = None,
      jwt_decode = example_decode,
      isEmail = (\<lambda>s. CHR ''@'' \<in> set s),
      normalizeEmail = map lower_char,
      bcrypt_hash = example_hash,
      bcrypt_compare = (\<lambda>pw h. h = example_hash pw),
      contains_insensitive = (\<lambda>q s. contains_string (map lower_char q) (map lower_char s)),
      new_id = (\<lambda>us. ''u'' @ replicate (length us) CHR ''+'')\<rparr>"

definition no_filters :: PostsQuery where
  no_filters_def [example_defs]:
  "no_filters = \<lparr>q_page = None, q_limit = None, q_status = None, q_search = None\<rparr>"

definition drafts_only :: PostsQuery where
  drafts_only_def [example_defs]:
  "drafts_only = \<lparr>q_page = None, q_limit = None, q_status = Some ''DRAFT'', q_search = None\<rparr>"

definition carol_login :: LoginRequest where
  carol_login_def [example_defs]:
  "carol_login = \<lparr>lr_email = ''carol@example.com'', lr_password = ''carol''\<rparr>"

definition dave_registration :: RegisterRequest where
  dave_registration_def [example_defs]:
  "dave_registration =
     \<lparr>rr_email = ''Dave@Example.com'', rr_password = ''password123'', rr_name = None,
      rr_role = ''MEMBER''\<rparr>"

text \<open>The row Dave's registration creates at time 1500.\<close>

definition dave :: User where
  dave_def [example_defs]:
  "dave = \<lparr>u_id = ''u+++'', u_email = ''dave@example.com'',
            u_password = example_hash ''password123'', u_name = Some ''dave'', u_role = MEMBER,
            u_isActive = True, u_createdAt = 1500, u_updatedAt = 1500\<rparr>"

definition erin_creation :: RegisterRequest where
  erin_creation_def [example_defs]:
  "erin_creation =
     \<lparr>rr_email = ''erin@example.com'', rr_password = ''password456'', rr_name = Some ''Erin Q'',
      rr_role = ''STAFF''\<rparr>"

section \<open>Auxiliary facts\<close>

lemma findUnique_id_SomeD:
  "findUnique_id us i = Some u \<Longrightarrow> u_id u = i \<and> u \<in> set us"
  by (auto simp: findUnique_id_def find_Some_iff)

lemma findUnique_id_self:
  assumes "findUnique_id us i = Some u"
  shows "findUnique_id us (u_id u) = Some u"
  using assms findUnique_id_SomeD [OF assms] by simp

text \<open>The first integer that is no double is read as its even neighbour.\<close>

lemma parseInt_rounds:
  "parseInt (Some ''9007199254740992'') = Some 9007199254740992
   \<and> parseInt (Some ''9007199254740993'') = Some 9007199254740992"
proof -
  have "to_double 9007199254740992 = 9007199254740992"
    by (simp add: to_double_def round_even_def
          ulp.simps [of 9007199254740992] ulp.simps [of 4503599627370496])
  moreover have "to_double 9007199254740993 = 9007199254740992"
    by (simp add: to_double_def round_even_def
          ulp.simps [of 9007199254740993] ulp.simps [of 4503599627370496])
  ultimately show ?thesis
    by (simp add: parseInt_def unsigned_part_def isDigit_def digits_value_def digit_value_def
          is_negative_def)
qed

lemma split_js_not_Nil: "split_js c s \<noteq> []"
  by (induction s) (auto split: list.splits)

lemma hd_split_js: "hd (split_js c s) = takeWhile (\<lambda>x. x \<noteq> c) s"
  by (induction s) (auto simp: split_js_not_Nil split: list.splits)

lemma name_or_local_absent: "name_or_local None email = local_part email"
  by (simp add: name_or_local_def str_or_def local_part_def hd_split_js)

lemma name_or_local_given: "n \<noteq> [] \<Longrightarrow> name_or_local (Some n) email = n"
  by (simp add: name_or_local_def str_or_def)

lemma valid_new_user_role:
  "valid_new_user pf body \<Longrightarrow> role_of_string (rr_role body) \<noteq> None"
  by (auto simp: valid_new_user_def role_of_string_def)

text \<open>The two guards in front of the user routes answer with errors only.\<close>

lemma authenticateToken_Inl_Failure:
  "authenticateToken pf now db authHeader = Inl r \<Longrightarrow> \<exists>code. r = Failure 401 code"
  by (auto simp: authenticateToken_def
        split: option.splits sum.splits jwt_error.splits if_splits)

lemma requireAdmin_Failure:
  "requireAdmin u = Some r \<Longrightarrow> \<exists>status code. r = Failure status code"
  by (auto simp: requireAdmin_def requireRole_def split: option.splits if_splits)

text \<open>
  A request that passes \<^verbatim>\<open>authenticateToken\<close> carries a user who is in the datastore
  under the id the request carries, and is active.
\<close>

lemma authenticateToken_Inr_found:
  "authenticateToken pf now db authHeader = Inr requester \<Longrightarrow>
     \<exists>(decoded::JWTPayload) user. findUnique_id (users db) (jwt_userId decoded) = Some user
        \<and> u_isActive user \<and> requester = select_ReqUser user"
  by (fastforce simp: authenticateToken_def
        split: option.splits sum.splits jwt_error.splits if_splits)

lemma authenticateToken_InrD:
  assumes "authenticateToken pf now db authHeader = Inr requester"
  shows "\<exists>user. findUnique_id (users db) (ru_id requester) = Some user
           \<and> requester = select_ReqUser user \<and> u_isActive user"
proof -
  from authenticateToken_Inr_found [OF assms] obtain decoded :: JWTPayload and user where
    found: "findUnique_id (users db) (jwt_userId decoded) = Some user"
    and rest: "u_isActive user" "requester = select_ReqUser user"
    by blast
  from found have "findUnique_id (users db) (u_id user) = Some user"
    by (rule findUnique_id_self)
  with rest show ?thesis
    by (auto simp: select_ReqUser_def)
qed

text \<open>A name that passed validation is not empty, so it is the one stored.\<close>

lemma valid_name_or_local:
  assumes "valid_new_user pf body"
  shows "name_or_local (rr_name body) e =
           (case rr_name body of None \<Rightarrow> local_part e | Some n \<Rightarrow> n)"
proof (cases "rr_name body")
  case None
  then show ?thesis by (simp add: name_or_local_absent)
next
  case (Some n)
  with assms have "n \<noteq> []"
    by (auto simp: valid_new_user_def optional_def isLength_min_def)
  with Some show ?thesis by (simp add: name_or_local_given)
qed

lemma register_created:
  assumes "register pf now db body = (Success status d, db')"
  shows "\<exists>user. users db' = users db @ [user]
           \<and> u_email user = normalizeEmail pf (rr_email body)
           \<and> u_name user = Some (case rr_name body of
                                   None \<Rightarrow> local_part (u_email user)
                                 | Some n \<Rightarrow> n)"
proof (cases "valid_new_user pf body")
  case False
  with assms show ?thesis by (simp add: register_def)
next
  case True
  show ?thesis
  proof (cases "findUnique_email (users db) (normalizeEmail pf (rr_email body))")
    case (Some existing)
    with assms True show ?thesis by (simp add: register_def)
  next
    case None
    show ?thesis
    proof (cases "role_of_string (rr_role body)")
      case no_role: None
      with assms True None show ?thesis by (simp add: register_def)
    next
      case (Some r)
      with assms True None have
        "db' = db\<lparr>users := users db @
           [create_user pf now db (normalizeEmail pf (rr_email body))
              (bcrypt_hash pf (rr_password body))
              (name_or_local (rr_name body) (normalizeEmail pf (rr_email body))) r]\<rparr>"
        by (simp add: register_def Let_def)
      then show ?thesis
        by (simp add: create_user_def valid_name_or_local [OF True] split: option.splits)
    qed
  qed
qed

lemma create_user_route_created:
  assumes "create_user_route pf now db authHeader body = (Success status d, db')"
  shows "\<exists>user. users db' = users db @ [user]
           \<and> u_email user = normalizeEmail pf (rr_email body)
           \<and> u_name user = Some (case rr_name body of
                                   None \<Rightarrow> local_part (u_email user)
                                 | Some n \<Rightarrow> n)"
proof (cases "authenticateToken pf now db authHeader")
  case (Inl r)
  with assms authenticateToken_Inl_Failure [OF Inl] show ?thesis
    by (auto simp: create_user_route_def)
next
  case (Inr requester)
  show ?thesis
  proof (cases "requireAdmin (Some requester)")
    case (Some r)
    with assms Inr requireAdmin_Failure [OF Some] show ?thesis
      by (auto simp: create_user_route_def)
  next
    case guard: None
    show ?thesis
    proof (cases "valid_new_user pf body")
      case False
      with assms Inr guard show ?thesis by (simp add: create_user_route_def)
    next
      case True
      show ?thesis
      proof (cases "findUnique_email (users db) (normalizeEmail pf (rr_email body))")
        case (Some existing)
        with assms Inr guard True show ?thesis by (simp add: create_user_route_def)
      next
        case None
        show ?thesis
        proof (cases "role_of_string (rr_role body)")
          case no_role: None
          with assms Inr guard True None show ?thesis by (simp add: create_user_route_def)
        next
          case (Some r)
          with assms Inr guard True None have
            "db' = db\<lparr>users := users db @
               [create_user pf now db (normalizeEmail pf (rr_email body))
                  (bcrypt_hash pf (rr_password body))
                  (name_or_local (rr_name body) (normalizeEmail pf (rr_email body))) r]\<rparr>"
            by (simp add: create_user_route_def Let_def)
          then show ?thesis
            by (simp add: create_user_def valid_name_or_local [OF True] split: option.splits)
        qed
      qed
    qed
  qed
qed

section \<open>Listing posts\<close>

text \<open>
  \<^bold>\<open>C1.\<close> The claim is that every post \<^verbatim>\<open>GET /api/posts\<close> returns to a MEMBER is
  PUBLISHED, whatever the query parameters. The route first sets the status filter to
  PUBLISHED for a MEMBER, as its comment announces, and then overwrites it with the
  \<^verbatim>\<open>status\<close> parameter when one is given. Bob is an active MEMBER; with
  \<^verbatim>\<open>status=DRAFT\<close> he is sent the draft post.
\<close>

theorem member_sees_draft:
  "u_role bob = MEMBER \<and> p_status draft_post = DRAFT
   \<and> authenticateToken example_platform 1500 example_db (Some ''Bearer access.bob'')
       = Inr (select_ReqUser bob)
   \<and> get_posts example_platform 1500 example_db (Some ''Bearer access.bob'') drafts_only
       = (Success 200 (PostList [draft_post]
            \<lparr>pg_page = 1, pg_limit = 10, pg_total = 1, pg_pages = 1\<rparr>), example_db)"
proof -
  have auth: "authenticateToken example_platform 1500 example_db (Some ''Bearer access.bob'')
      = Inr (select_ReqUser bob)"
    by (simp add: authenticateToken_def bearer_token_def at_index_def jwt_verify_def
          check_exp_def ACCESS_SECRET_def env_or_def findUnique_id_def example_defs)
  have query: "q_page drafts_only = None" "q_limit drafts_only = None"
    by (simp_all add: drafts_only_def)
  have paging: "num_or (parseInt None) 1 = 1" "num_or (parseInt None) 10 = 10"
    "to_double (to_double 0 * 10) = 0"
    by (simp_all add: num_or_def parseInt_def to_double_def)
  have valid: "valid_posts_query drafts_only"
    by (simp add: valid_posts_query_def drafts_only_def optional_def)
  have wh: "build_where (ru_role (select_ReqUser bob)) (q_status drafts_only) (q_search drafts_only)
      = \<lparr>w_status = Some ''DRAFT'', w_OR = None\<rparr>"
    by (simp add: build_where_def select_ReqUser_def bob_def drafts_only_def)
  have rows: "filter (post_matches example_platform \<lparr>w_status = Some ''DRAFT'', w_OR = None\<rparr>)
      (posts example_db) = [draft_post]"
    by (simp add: post_matches_def status_string_def example_db_def draft_post_def
          published_post_def)
  have "get_posts example_platform 1500 example_db (Some ''Bearer access.bob'') drafts_only
       = (Success 200 (PostList [draft_post]
            \<lparr>pg_page = 1, pg_limit = 10, pg_total = 1, pg_pages = 1\<rparr>), example_db)"
    by (simp add: get_posts_def auth valid query wh rows paging findMany_posts_def
          count_posts_def ceil_div_def Let_def)
  then show ?thesis
    by (simp add: auth bob_def draft_post_def)
qed

section \<open>Expired tokens\<close>

text \<open>
  \<^bold>\<open>C2\<close>, as stated, fails: a token whose expiry has passed and whose signature was
  made with another secret than the access secret is answered with
  \<^verbatim>\<open>INVALID_TOKEN\<close>, not \<^verbatim>\<open>TOKEN_EXPIRED\<close>, because verification checks the
  signature before the expiry. The forged token expired at 1900 and is presented at 2000.
\<close>

theorem expired_forged_token_counterexample:
  "jwt_decode example_platform ''forged.bob'' = Signed ''guessed-secret'' (claims_of bob 1000 1900)
   \<and> ''guessed-secret'' \<noteq> ACCESS_SECRET example_platform
   \<and> jwt_exp (claims_of bob 1000 1900) = Some 1900
   \<and> authenticateToken example_platform 2000 example_db (Some ''Bearer forged.bob'')
       = Inl (Failure 401 ''INVALID_TOKEN'')"
  by (simp add: model_defs example_defs)

text \<open>
  \<^bold>\<open>C2\<close>, amended. For every presented token whose embedded expiry has been reached
  at verification time, \<^verbatim>\<open>authenticateToken\<close> answers 401: with
  \<^verbatim>\<open>TOKEN_EXPIRED\<close> when the token is signed with the access secret and either
  carries no not-before claim or carries a not-before time that has been reached, and
  with \<^verbatim>\<open>INVALID_TOKEN\<close> in every other case: when it is signed with another secret,
  when its not-before time is still ahead, or when its not-before claim is no number.
\<close>

theorem expired_token_rejected:
  assumes "bearer_token authHeader = Some tok" and "tok \<noteq> []"
      and "jwt_decode pf tok = Signed k payload"
      and "jwt_exp payload = Some e" and "e \<le> now"
  shows "authenticateToken pf now db authHeader =
           Inl (Failure 401
             (if k = ACCESS_SECRET pf \<and> nbf_reached (jwt_nbf payload) now
              then ''TOKEN_EXPIRED'' else ''INVALID_TOKEN''))"
  using assms
  by (auto simp: authenticateToken_def jwt_verify_def check_exp_def nbf_reached_def
        split: not_before.splits)

text \<open>
  Bob's own access token, presented at the second it expires; the forged one, the
  postdated one and the one with the garbled not-before claim, presented after their
  expiry.
\<close>

theorem expired_token_rejected_witness:
  "bearer_token (Some ''Bearer access.bob'') = Some ''access.bob''
   \<and> jwt_decode example_platform ''access.bob''
       = Signed (ACCESS_SECRET example_platform) (claims_of bob 1000 1900)
   \<and> authenticateToken example_platform 1900 example_db (Some ''Bearer access.bob'')
       = Inl (Failure 401 ''TOKEN_EXPIRED'')
   \<and> authenticateToken example_platform 2000 example_db (Some ''Bearer forged.bob'')
       = Inl (Failure 401 ''INVALID_TOKEN'')
   \<and> jwt_decode example_platform ''postdated.bob''
       = Signed (ACCESS_SECRET example_platform)
           ((claims_of bob 1000 1900)\<lparr>jwt_nbf := NbfAt 5000\<rparr>)
   \<and> authenticateToken example_platform 2000 example_db (Some ''Bearer postdated.bob'')
       = Inl (Failure 401 ''INVALID_TOKEN'')
   \<and> authenticateToken example_platform 2000 example_db (Some ''Bearer garbled.bob'')
       = Inl (Failure 401 ''INVALID_TOKEN'')"
  using expired_token_rejected [where authHeader = "Some ''Bearer access.bob''"
          and tok = "''access.bob''" and pf = example_platform
          and k = "''fallback-access-secret''" and payload = "claims_of bob 1000 1900"
          and e = 1900 and now = 1900 and db = example_db]
        expired_token_rejected [where authHeader = "Some ''Bearer forged.bob''"
          and tok = "''forged.bob''" and pf = example_platform
          and k = "''guessed-secret''" and payload = "claims_of bob 1000 1900"
          and e = 1900 and now = 2000 and db = example_db]
        expired_token_rejected [where authHeader = "Some ''Bearer postdated.bob''"
          and tok = "''postdated.bob''" and pf = example_platform
          and k = "''fallback-access-secret''"
          and payload = "(claims_of bob 1000 1900)\<lparr>jwt_nbf := NbfAt 5000\<rparr>"
          and e = 1900 and now = 2000 and db = example_db]
        expired_token_rejected [where authHeader = "Some ''Bearer garbled.bob''"
          and tok = "''garbled.bob''" and pf = example_platform
          and k = "''fallback-access-secret''"
          and payload = "(claims_of bob 1000 1900)\<lparr>jwt_nbf := NbfNotNumber\<rparr>"
          and e = 1900 and now = 2000 and db = example_db]
  by (simp add: model_defs example_defs)

section \<open>Refreshing\<close>

text \<open>
  \<^bold>\<open>C3.\<close> For a refresh token that is valid (signed with the refresh secret, and
  with no not-before claim or one whose time has been reached) and not expired, whose
  user exists and is active, \<^verbatim>\<open>refreshAccessToken\<close> returns a new
  access token that carries the role and the email the datastore holds for that user at
  the time of the refresh, whatever role and email the refresh token itself carries.
\<close>

theorem refresh_reads_current_user:
  assumes "jwt_decode pf rt = Signed (REFRESH_SECRET pf) payload"
      and "nbf_reached (jwt_nbf payload) now"
      and "\<forall>e. jwt_exp payload = Some e \<longrightarrow> now < e"
      and "findUnique_id (users db) (jwt_userId payload) = Some user"
      and "u_isActive user"
  shows "\<exists>t. refreshAccessToken pf now db rt = Some t
           \<and> accessToken t = Signed (ACCESS_SECRET pf)
                \<lparr>jwt_userId = u_id user, jwt_email = u_email user, jwt_role = u_role user,
                 jwt_iat = Some now, jwt_exp = Some (now + 15 * 60), jwt_nbf = NoNbf\<rparr>
           \<and> jwt_role (claims (accessToken t)) = u_role user
           \<and> jwt_email (claims (accessToken t)) = u_email user"
  using assms
  by (auto simp: refreshAccessToken_def jwt_verify_def check_exp_def nbf_reached_def
        generateTokens_def jwt_sign_def ACCESS_TOKEN_EXPIRY_def
        split: option.splits not_before.splits)

text \<open>
  Bob's refresh token still names him an ADMIN under his old address; the new access
  token names him a MEMBER under his current one.
\<close>

theorem refresh_reads_current_user_witness:
  "jwt_decode example_platform ''refresh.bob'' = Signed (REFRESH_SECRET example_platform)
       \<lparr>jwt_userId = ''u2'', jwt_email = ''bob@old.example.com'', jwt_role = ADMIN,
        jwt_iat = Some 1000, jwt_exp = Some 605800, jwt_nbf = NoNbf\<rparr>
   \<and> findUnique_id (users example_db) ''u2'' = Some bob
   \<and> u_isActive bob \<and> u_role bob = MEMBER \<and> u_email bob = ''bob@example.com''
   \<and> refreshAccessToken example_platform 1500 example_db ''refresh.bob''
       = Some \<lparr>accessToken = Signed ''fallback-access-secret'' (claims_of bob 1500 2400),
               refreshToken = Signed ''fallback-refresh-secret'' (claims_of bob 1500 606300)\<rparr>"
  using refresh_reads_current_user [where pf = example_platform and rt = "''refresh.bob''"
          and payload = "\<lparr>jwt_userId = ''u2'', jwt_email = ''bob@old.example.com'',
            jwt_role = ADMIN, jwt_iat = Some 1000, jwt_exp = Some 605800, jwt_nbf = NoNbf\<rparr>"
          and now = 1500 and db = example_db and user = bob]
  by (simp add: model_defs example_defs)

section \<open>Role guard\<close>

text \<open>
  \<^bold>\<open>C4.\<close> Once \<^verbatim>\<open>authenticateToken\<close> has set \<^verbatim>\<open>req.user\<close>, a guard with
  allow-list \<open>roles\<close> lets the request through exactly when the user's role is a member
  of the list; otherwise it answers 403 \<^verbatim>\<open>INSUFFICIENT_PERMISSIONS\<close>. There is no
  hierarchy: a MEMBER is stopped by the guard for ADMIN and STAFF, which a STAFF or an
  ADMIN passes; the ADMIN guard passes ADMIN only, and the guard listing all four roles
  passes everyone.
\<close>

theorem requireRole_exact_membership:
  "((requireRole roles (Some u) = None) = (ru_role u \<in> set roles))
   \<and> (ru_role u \<notin> set roles \<longrightarrow>
        requireRole roles (Some u) = Some (Failure 403 ''INSUFFICIENT_PERMISSIONS''))
   \<and> (ru_role u = MEMBER \<longrightarrow>
        requireStaff (Some u) = Some (Failure 403 ''INSUFFICIENT_PERMISSIONS''))
   \<and> (ru_role u = STAFF \<or> ru_role u = ADMIN \<longrightarrow> requireStaff (Some u) = None)
   \<and> ((requireAdmin (Some u) = None) = (ru_role u = ADMIN))
   \<and> requireAuth (Some u) = None"
  by (cases "ru_role u")
     (simp_all add: requireRole_def requireStaff_def requireAdmin_def requireAuth_def)

text \<open>Bob is a MEMBER, Carol a STAFF, Alice an ADMIN.\<close>

theorem requireRole_exact_membership_witness:
  "requireRole [ADMIN, STAFF] (Some (select_ReqUser bob))
     = Some (Failure 403 ''INSUFFICIENT_PERMISSIONS'')
   \<and> requireStaff (Some (select_ReqUser bob)) = Some (Failure 403 ''INSUFFICIENT_PERMISSIONS'')
   \<and> requireStaff (Some (select_ReqUser carol)) = None
   \<and> requireStaff (Some (select_ReqUser alice)) = None"
  using requireRole_exact_membership [of "[ADMIN, STAFF]" "select_ReqUser bob"]
        requireRole_exact_membership [of "[ADMIN, STAFF]" "select_ReqUser carol"]
        requireRole_exact_membership [of "[ADMIN, STAFF]" "select_ReqUser alice"]
  by (simp add: select_ReqUser_def bob_def carol_def alice_def)

section \<open>Resolving the bearer token\<close>

text \<open>
  \<^bold>\<open>C5.\<close> A request without a bearer token (no header, or a header whose second
  blank-separated part is missing or empty) is answered 401 \<^verbatim>\<open>MISSING_TOKEN\<close>,
  whatever the token package would say. For a request whose token verifies under the
  access secret: if the datastore has no user of the token's \<^verbatim>\<open>userId\<close> the answer
  is 401 \<^verbatim>\<open>USER_NOT_FOUND\<close>; if it has one whose active flag is false the answer is
  401 \<^verbatim>\<open>USER_INACTIVE\<close>; otherwise the next handler runs with that user's record
  attached to the request: the stored row of the token's \<^verbatim>\<open>userId\<close>, with its id,
  email, name, role, active flag and timestamps, and without its password hash.
\<close>

theorem authenticateToken_outcomes:
  "(bearer_token authHeader = None \<or> bearer_token authHeader = Some [] \<longrightarrow>
      authenticateToken pf now db authHeader = Inl (Failure 401 ''MISSING_TOKEN''))
   \<and> (bearer_token authHeader = Some tok \<and> tok \<noteq> [] \<and>
       jwt_verify (jwt_decode pf tok) (ACCESS_SECRET pf) now = Inr decoded \<longrightarrow>
         (findUnique_id (users db) (jwt_userId decoded) = None \<longrightarrow>
            authenticateToken pf now db authHeader = Inl (Failure 401 ''USER_NOT_FOUND''))
       \<and> (findUnique_id (users db) (jwt_userId decoded) = Some user \<and> \<not> u_isActive user \<longrightarrow>
            authenticateToken pf now db authHeader = Inl (Failure 401 ''USER_INACTIVE''))
       \<and> (findUnique_id (users db) (jwt_userId decoded) = Some user \<and> u_isActive user \<longrightarrow>
            authenticateToken pf now db authHeader =
              Inr \<lparr>ru_id = u_id user, ru_email = u_email user, ru_name = u_name user,
                   ru_role = u_role user, ru_isActive = True,
                   ru_createdAt = u_createdAt user, ru_updatedAt = u_updatedAt user\<rparr>
            \<and> u_id user = jwt_userId decoded))"
proof -
  have ident: "u_id user = jwt_userId decoded"
    if "findUnique_id (users db) (jwt_userId decoded) = Some user"
    using findUnique_id_SomeD [OF that] by simp
  show ?thesis
    using ident by (auto simp: authenticateToken_def select_ReqUser_def)
qed

text \<open>
  No header; a header with the scheme only; the token of a deleted user; the token of the
  deactivated Carol; the token of Bob.
\<close>

theorem authenticateToken_outcomes_witness:
  "authenticateToken example_platform 1500 example_db None = Inl (Failure 401 ''MISSING_TOKEN'')
   \<and> authenticateToken example_platform 1500 example_db (Some ''Bearer'')
       = Inl (Failure 401 ''MISSING_TOKEN'')
   \<and> authenticateToken example_platform 1500 example_db (Some ''Bearer access.ghost'')
       = Inl (Failure 401 ''USER_NOT_FOUND'')
   \<and> authenticateToken example_platform 1500 example_db (Some ''Bearer access.carol'')
       = Inl (Failure 401 ''USER_INACTIVE'')
   \<and> authenticateToken example_platform 1500 example_db (Some ''Bearer access.bob'')
       = Inr \<lparr>ru_id = ''u2'', ru_email = ''bob@example.com'', ru_name = Some ''Bob'',
              ru_role = MEMBER, ru_isActive = True, ru_createdAt = 200, ru_updatedAt = 900\<rparr>"
  using authenticateToken_outcomes [where authHeader = None and tok = "[]"
          and pf = example_platform and now = 1500 and db = example_db
          and decoded = "claims_of bob 1000 1900" and user = bob]
        authenticateToken_outcomes [where authHeader = "Some ''Bearer''" and tok = "[]"
          and pf = example_platform and now = 1500 and db = example_db
          and decoded = "claims_of bob 1000 1900" and user = bob]
        authenticateToken_outcomes [where authHeader = "Some ''Bearer access.ghost''"
          and tok = "''access.ghost''" and pf = example_platform and now = 1500
          and db = example_db and decoded = "claims (example_decode ''access.ghost'')"
          and user = bob]
        authenticateToken_outcomes [where authHeader = "Some ''Bearer access.carol''"
          and tok = "''access.carol''" and pf = example_platform and now = 1500
          and db = example_db and decoded = "claims_of carol 1000 1900" and user = carol]
        authenticateToken_outcomes [where authHeader = "Some ''Bearer access.bob''"
          and tok = "''access.bob''" and pf = example_platform and now = 1500
          and db = example_db and decoded = "claims_of bob 1000 1900" and user = bob]
  by (simp add: model_defs example_defs)

section \<open>Inactive users\<close>

text \<open>
  \<^bold>\<open>C6\<close>, as stated, fails in its error code for login: Carol is inactive and her
  password has five characters, so a login with her correct credentials is stopped by the
  validation of the request body (a password of at least six characters) and answered
  400 \<^verbatim>\<open>VALIDATION_ERROR\<close>, not 401 \<^verbatim>\<open>ACCOUNT_INACTIVE\<close>.
\<close>

theorem inactive_login_counterexample:
  "findUnique_email (users example_db) (normalizeEmail example_platform (lr_email carol_login))
     = Some carol
   \<and> \<not> u_isActive carol
   \<and> bcrypt_compare example_platform (lr_password carol_login) (u_password carol)
   \<and> login example_platform 1500 example_db carol_login
       = (Failure 400 ''VALIDATION_ERROR'', example_db)"
  by (simp add: model_defs example_defs)

text \<open>
  \<^bold>\<open>C6\<close>, amended. An inactive user never obtains a new session. A login for the
  address of a user whose active flag is false issues no tokens: it is answered 401
  \<^verbatim>\<open>ACCOUNT_INACTIVE\<close> when the body passes validation (a well-formed email and a
  password of at least six characters), whatever the password, and 400
  \<^verbatim>\<open>VALIDATION_ERROR\<close> otherwise. Refreshing with any token that names that user,
  whatever its signature and expiry, is answered 401 \<^verbatim>\<open>INVALID_REFRESH_TOKEN\<close> and
  issues no access token. Neither changes the datastore.
\<close>

theorem inactive_user_gets_no_session:
  assumes "\<not> u_isActive user"
  shows "(findUnique_email (users db) (normalizeEmail pf (lr_email body)) = Some user \<longrightarrow>
            login pf now db body =
              (if isEmail pf (lr_email body) \<and> 6 \<le> length (lr_password body)
               then (Failure 401 ''ACCOUNT_INACTIVE'', db)
               else (Failure 400 ''VALIDATION_ERROR'', db)))
       \<and> (rt \<noteq> [] \<and> jwt_decode pf rt = Signed k payload \<and>
          findUnique_id (users db) (jwt_userId payload) = Some user \<longrightarrow>
            refresh pf now db (Some rt) = (Failure 401 ''INVALID_REFRESH_TOKEN'', db))"
  using assms
  by (auto simp: login_def isLength_min_def refresh_def refreshAccessToken_def jwt_verify_def
        check_exp_def split: option.splits sum.splits not_before.splits)

text \<open>
  Carol again: a login that passes validation, her own login, and her refresh token, which
  is validly signed and not expired.
\<close>

theorem inactive_user_gets_no_session_witness:
  "\<not> u_isActive carol
   \<and> login example_platform 1500 example_db
        \<lparr>lr_email = ''carol@example.com'', lr_password = ''not-her-password''\<rparr>
       = (Failure 401 ''ACCOUNT_INACTIVE'', example_db)
   \<and> login example_platform 1500 example_db carol_login
       = (Failure 400 ''VALIDATION_ERROR'', example_db)
   \<and> refresh example_platform 1500 example_db (Some ''refresh.carol'')
       = (Failure 401 ''INVALID_REFRESH_TOKEN'', example_db)"
  using inactive_user_gets_no_session [where user = carol and db = example_db
          and pf = example_platform and now = 1500
          and body = "\<lparr>lr_email = ''carol@example.com'', lr_password = ''not-her-password''\<rparr>"
          and rt = "''refresh.carol''" and k = "''fallback-refresh-secret''"
          and payload = "claims_of carol 1000 605800"]
        inactive_user_gets_no_session [where user = carol and db = example_db
          and pf = example_platform and now = 1500 and body = carol_login]
  by (simp add: model_defs example_defs)

section \<open>Token issuance\<close>

text \<open>
  \<^bold>\<open>C7.\<close> Issuing tokens for an identity gives two signed tokens with the same claims:
  the user's id, email and role, the time of issue, and an expiry, 15 minutes after
  issue for the access token and 7 days after issue for the refresh token. The access
  token is signed with the access secret and the refresh token with the refresh secret.
  When the two secrets differ, neither of the two verifies under the other secret, and
  no token at all verifies under both.
\<close>

theorem generateTokens_two_classes:
  "generateTokens pf now uid mail r =
     \<lparr>accessToken = Signed (ACCESS_SECRET pf)
        \<lparr>jwt_userId = uid, jwt_email = mail, jwt_role = r,
         jwt_iat = Some now, jwt_exp = Some (now + 15 * 60), jwt_nbf = NoNbf\<rparr>,
      refreshToken = Signed (REFRESH_SECRET pf)
        \<lparr>jwt_userId = uid, jwt_email = mail, jwt_role = r,
         jwt_iat = Some now, jwt_exp = Some (now + 7 * 24 * 60 * 60), jwt_nbf = NoNbf\<rparr>\<rparr>
   \<and> (ACCESS_SECRET pf \<noteq> REFRESH_SECRET pf \<longrightarrow>
        jwt_verify (accessToken (generateTokens pf now uid mail r)) (REFRESH_SECRET pf) later
          = Inl JsonWebTokenError
        \<and> jwt_verify (refreshToken (generateTokens pf now uid mail r)) (ACCESS_SECRET pf) later
          = Inl JsonWebTokenError
        \<and> (jwt_verify t (ACCESS_SECRET pf) later = Inr p \<longrightarrow>
             jwt_verify t (REFRESH_SECRET pf) later' = Inl JsonWebTokenError)
        \<and> (jwt_verify t (REFRESH_SECRET pf) later = Inr p \<longrightarrow>
             jwt_verify t (ACCESS_SECRET pf) later' = Inl JsonWebTokenError))"
  by (auto simp: generateTokens_def jwt_sign_def jwt_verify_def check_exp_def
        ACCESS_TOKEN_EXPIRY_def REFRESH_TOKEN_EXPIRY_def
        split: jwt.splits option.splits if_splits not_before.splits)

text \<open>With no secret in the environment the two fallbacks apply, and they differ.\<close>

theorem generateTokens_two_classes_witness:
  "ACCESS_SECRET example_platform \<noteq> REFRESH_SECRET example_platform
   \<and> generateTokens example_platform 1000 ''u2'' ''bob@example.com'' MEMBER =
       \<lparr>accessToken = Signed ''fallback-access-secret'' (claims_of bob 1000 1900),
        refreshToken = Signed ''fallback-refresh-secret'' (claims_of bob 1000 605800)\<rparr>
   \<and> jwt_verify (Signed ''fallback-access-secret'' (claims_of bob 1000 1900))
        ''fallback-access-secret'' 1500 = Inr (claims_of bob 1000 1900)
   \<and> jwt_verify (Signed ''fallback-access-secret'' (claims_of bob 1000 1900))
        ''fallback-refresh-secret'' 1500 = Inl JsonWebTokenError
   \<and> jwt_verify (Signed ''fallback-refresh-secret'' (claims_of bob 1000 605800))
        ''fallback-access-secret'' 1500 = Inl JsonWebTokenError"
  using generateTokens_two_classes [of example_platform 1000 "''u2''" "''bob@example.com''" MEMBER
          1500 "Signed ''fallback-access-secret'' (claims_of bob 1000 1900)"
          "claims_of bob 1000 1900" 1500]
  by (simp add: model_defs example_defs)

section \<open>No rotation of the refresh token\<close>

text \<open>
  \<^bold>\<open>C8.\<close> Every successful answer of \<^verbatim>\<open>POST /refresh\<close> has status 200 and
  carries one token, a new access token issued at the time of the call for the user the
  refresh token names, and no refresh token. The call leaves the datastore as it was, and
  the server keeps no other state: the presented refresh token, against the datastore the
  call leaves, succeeds again at every later time before its own expiry, and at every
  earlier time at which it is already valid. (A token that carries a not-before time has
  reached it at the successful call.)
\<close>

theorem refresh_keeps_refresh_token:
  assumes "refresh pf now db body = (Success status d, db')"
  shows "db' = db \<and> status = 200
       \<and> (\<exists>rt payload user.
            body = Some rt \<and> jwt_decode pf rt = Signed (REFRESH_SECRET pf) payload
            \<and> findUnique_id (users db) (jwt_userId payload) = Some user
            \<and> d = AccessTokenOnly (Signed (ACCESS_SECRET pf)
                    \<lparr>jwt_userId = u_id user, jwt_email = u_email user, jwt_role = u_role user,
                     jwt_iat = Some now, jwt_exp = Some (now + 15 * 60), jwt_nbf = NoNbf\<rparr>)
            \<and> nbf_reached (jwt_nbf payload) now
            \<and> (\<forall>later. (now \<le> later \<or> nbf_reached (jwt_nbf payload) later) \<and>
                        (\<forall>e. jwt_exp payload = Some e \<longrightarrow> later < e) \<longrightarrow>
                 refresh pf later db' body =
                   (Success 200 (AccessTokenOnly (Signed (ACCESS_SECRET pf)
                      \<lparr>jwt_userId = u_id user, jwt_email = u_email user, jwt_role = u_role user,
                       jwt_iat = Some later, jwt_exp = Some (later + 15 * 60), jwt_nbf = NoNbf\<rparr>)), db')))"
  using assms
  by (auto simp: refresh_def refreshAccessToken_def jwt_verify_def check_exp_def
        nbf_reached_def generateTokens_def jwt_sign_def ACCESS_TOKEN_EXPIRY_def
        split: option.splits sum.splits if_splits jwt.splits not_before.splits)

text \<open>Bob's refresh token, used at 1500 and again one second before it expires.\<close>

theorem refresh_keeps_refresh_token_witness:
  "refresh example_platform 1500 example_db (Some ''refresh.bob'')
     = (Success 200 (AccessTokenOnly (Signed ''fallback-access-secret'' (claims_of bob 1500 2400))),
        example_db)
   \<and> refresh example_platform 605799 example_db (Some ''refresh.bob'')
     = (Success 200
          (AccessTokenOnly (Signed ''fallback-access-secret'' (claims_of bob 605799 606699))),
        example_db)"
  using refresh_keeps_refresh_token [where pf = example_platform and now = 1500
          and db = example_db and body = "Some ''refresh.bob''" and status = 200
          and d = "AccessTokenOnly (Signed ''fallback-access-secret'' (claims_of bob 1500 2400))"
          and db' = example_db]
  by (simp add: model_defs example_defs)

section \<open>Deleting users\<close>

text \<open>
  \<^bold>\<open>C9.\<close> For a request to \<^verbatim>\<open>DELETE /api/users/:id\<close> that has passed
  authentication as an ADMIN: when the id is the requester's own, the answer is 400
  \<^verbatim>\<open>CANNOT_DELETE_SELF\<close> and the datastore is unchanged; the users of the datastore
  change, and the route reports a deletion, only when a user of that id exists and the id
  is not the requester's, and then exactly the row of that id is gone.
\<close>

theorem delete_user_self_guard:
  assumes "authenticateToken pf now db authHeader = Inr requester"
      and "ru_role requester = ADMIN"
  shows "(ident = ru_id requester \<longrightarrow>
            delete_user_route pf now db authHeader ident = (Failure 400 ''CANNOT_DELETE_SELF'', db))
       \<and> (users (snd (delete_user_route pf now db authHeader ident)) \<noteq> users db \<longrightarrow>
            findUnique_id (users db) ident \<noteq> None \<and> ident \<noteq> ru_id requester)
       \<and> (fst (delete_user_route pf now db authHeader ident)
            = Success 200 (Message ''User deleted successfully'') \<longrightarrow>
            findUnique_id (users db) ident \<noteq> None \<and> ident \<noteq> ru_id requester
            \<and> users (snd (delete_user_route pf now db authHeader ident))
                = filter (\<lambda>u. u_id u \<noteq> ident) (users db))"
proof -
  from assms(1) obtain user where
    found: "findUnique_id (users db) (ru_id requester) = Some user"
    using authenticateToken_InrD by blast
  have guard: "requireAdmin (Some requester) = None"
    using assms(2) by (simp add: requireAdmin_def requireRole_def)
  show ?thesis
    using assms(1) guard found
    by (auto simp: delete_user_route_def delete_user_handler_def split: option.splits)
qed

text \<open>Alice, an ADMIN, deletes herself, then Bob, then a user who does not exist.\<close>

theorem delete_user_self_guard_witness:
  "authenticateToken example_platform 1500 example_db (Some ''Bearer access.alice'')
     = Inr (select_ReqUser alice)
   \<and> ru_role (select_ReqUser alice) = ADMIN \<and> ru_id (select_ReqUser alice) = ''u1''
   \<and> delete_user_route example_platform 1500 example_db (Some ''Bearer access.alice'') ''u1''
       = (Failure 400 ''CANNOT_DELETE_SELF'', example_db)
   \<and> delete_user_route example_platform 1500 example_db (Some ''Bearer access.alice'') ''u2''
       = (Success 200 (Message ''User deleted successfully''),
          example_db\<lparr>users := [alice, carol]\<rparr>)
   \<and> delete_user_route example_platform 1500 example_db (Some ''Bearer access.alice'') ''u9''
       = (Failure 404 ''USER_NOT_FOUND'', example_db)"
  using delete_user_self_guard [where pf = example_platform and now = 1500 and db = example_db
          and authHeader = "Some ''Bearer access.alice''" and requester = "select_ReqUser alice"
          and ident = "''u1''"]
        delete_user_self_guard [where pf = example_platform and now = 1500 and db = example_db
          and authHeader = "Some ''Bearer access.alice''" and requester = "select_ReqUser alice"
          and ident = "''u2''"]
  by (simp add: model_defs example_defs)

section \<open>Default display name\<close>

text \<open>
  \<^bold>\<open>C10\<close>, as stated, fails: the name defaults to the local part of the address as
  the request's sanitizer has normalized it, not as it was submitted. Dave registers as
  \<^verbatim>\<open>Dave@Example.com\<close> without a name; the address is stored in lower case and the
  created user is named \<^verbatim>\<open>dave\<close>, while the submitted local part is \<^verbatim>\<open>Dave\<close>.
\<close>

theorem display_name_counterexample:
  "rr_name dave_registration = None
   \<and> local_part (rr_email dave_registration) = ''Dave''
   \<and> register example_platform 1500 example_db dave_registration
       = (Success 201 (AuthResponse (view_of dave)
            (Signed ''fallback-access-secret'' (claims_of dave 1500 2400))
            (Signed ''fallback-refresh-secret'' (claims_of dave 1500 606300))),
          example_db\<lparr>users := [alice, bob, carol, dave]\<rparr>)
   \<and> u_name dave = Some ''dave''"
  by (simp add: model_defs example_defs Let_def)

text \<open>
  \<^bold>\<open>C10\<close>, amended. Every user created by \<^verbatim>\<open>POST /register\<close> or by
  \<^verbatim>\<open>POST /api/users\<close> is stored under the normalized email address. When the
  request has no name, the user's display name is the local part of that stored address
  (what precedes its first \<^verbatim>\<open>@\<close>); when a name is supplied it is stored unchanged.
\<close>

theorem new_user_display_name:
  "(register pf now db body = (Success status d, db') \<longrightarrow>
      (\<exists>user. users db' = users db @ [user]
         \<and> u_email user = normalizeEmail pf (rr_email body)
         \<and> u_name user = Some (case rr_name body of
                                 None \<Rightarrow> local_part (u_email user)
                               | Some n \<Rightarrow> n)))
   \<and> (create_user_route pf now db authHeader body = (Success status d, db') \<longrightarrow>
      (\<exists>user. users db' = users db @ [user]
         \<and> u_email user = normalizeEmail pf (rr_email body)
         \<and> u_name user = Some (case rr_name body of
                                 None \<Rightarrow> local_part (u_email user)
                               | Some n \<Rightarrow> n)))"
  using register_created create_user_route_created by blast

text \<open>
  Dave's registration without a name, and Erin's account, created by Alice with the name
  \<^verbatim>\<open>Erin Q\<close>.
\<close>

theorem new_user_display_name_witness:
  "users (snd (register example_platform 1500 example_db dave_registration))
     = users example_db @ [dave]
   \<and> u_name dave = Some (local_part (u_email dave))
   \<and> map u_name (users (snd (create_user_route example_platform 1500 example_db
                  (Some ''Bearer access.alice'') erin_creation)))
     = map u_name (users example_db) @ [Some ''Erin Q'']"
  using new_user_display_name [where pf = example_platform and now = 1500 and db = example_db
          and body = dave_registration
          and status = 201
          and d = "AuthResponse (view_of dave)
            (Signed ''fallback-access-secret'' (claims_of dave 1500 2400))
            (Signed ''fallback-refresh-secret'' (claims_of dave 1500 606300))"
          and db' = "example_db\<lparr>users := [alice, bob, carol, dave]\<rparr>"]
  by (simp add: model_defs example_defs Let_def)

end
